theory Spec2Isabelle
  imports Main
begin

section \<open>Values, exceptions and responses\<close>

text \<open>
  The handler is Python: values are dynamically typed and every call may raise.
  \<open>pyval\<close> carries the values the handler only passes through (ids, documents,
  metadata, embeddings, distances, configuration settings); a float is kept as an
  opaque mantissa/exponent pair because the handler never computes with it.
\<close>

datatype pyval =
    PNone
  | PBool bool
  | PInt int
  | PFloat int int
  | PStr string
  | PList "pyval list"
  | PDict "(string \<times> pyval) list"

text \<open>
  A raised exception is a value: the left injection of a sum. Each constructor is the
  Python exception class, its argument the text that \<open>str(e)\<close> is built from.
\<close>

datatype exn =
    AttributeError string
  | TypeError string
  | KeyError string
  | IndexError string
  | ValueError string
  | Exception string

definition quote :: "string \<Rightarrow> string" where
  "quote s = CHR 0x27 # s @ [CHR 0x27]"

text \<open>\<open>str(e)\<close>: the message; for a \<open>KeyError\<close> Python prints the key quoted.\<close>

fun str :: "exn \<Rightarrow> string" where
  "str (AttributeError m) = m"
| "str (TypeError m) = m"
| "str (KeyError k) = quote k"
| "str (IndexError m) = m"
| "str (ValueError m) = m"
| "str (Exception m) = m"

text \<open>A Python dict keeps insertion order: an association list with in-place update.\<close>

fun dict_set :: "('k \<times> 'v) list \<Rightarrow> 'k \<Rightarrow> 'v \<Rightarrow> ('k \<times> 'v) list" where
  "dict_set [] k v = [(k, v)]"
| "dict_set ((k', v') # d) k v = (if k' = k then (k, v) # d else (k', v') # dict_set d k v)"

definition dict_get :: "('k \<times> 'v) list \<Rightarrow> 'k \<Rightarrow> 'v \<Rightarrow> 'v" where
  "dict_get d k dflt = (case map_of d k of None \<Rightarrow> dflt | Some v \<Rightarrow> v)"

definition dict_del :: "('k \<times> 'v) list \<Rightarrow> 'k \<Rightarrow> ('k \<times> 'v) list" where
  "dict_del d k = filter (\<lambda>kv. fst kv \<noteq> k) d"

definition keys :: "('k \<times> 'v) list \<Rightarrow> 'k list" where
  "keys d = map fst d"

text \<open>\<open>xs or None\<close> on a list: the empty list is falsy.\<close>

definition or_None :: "'a list \<Rightarrow> 'a list option" where
  "or_None xs = (if xs = [] then None else Some xs)"

text \<open>\<open>xs[0]\<close> raises on the empty list.\<close>

definition index0 :: "'a list \<Rightarrow> exn + 'a" where
  "index0 xs = (case xs of [] \<Rightarrow> Inl (IndexError ''list index out of range'') | x # _ \<Rightarrow> Inr x)"

text \<open>
  A \<open>pandas.DataFrame\<close> as its ordered columns. Building one from a dict of lists raises
  \<open>ValueError\<close> when the lists differ in length.
\<close>

type_synonym DataFrame = "(string \<times> pyval list) list"

type_synonym row = "(string \<times> pyval) list"

definition pd_DataFrame :: "(string \<times> pyval list) list \<Rightarrow> exn + DataFrame" where
  "pd_DataFrame payload =
     (if list_all (\<lambda>c. length (snd c) = length (snd (hd payload))) payload
      then Inr payload
      else Inl (ValueError ''All arrays must be of the same length''))"

text \<open>\<open>DataFrame.to_dict("records")\<close>: one dict per row, keyed by column name.\<close>

definition to_dict_records :: "DataFrame \<Rightarrow> row list" where
  "to_dict_records df = map (\<lambda>vs. zip (map fst df) vs) (transpose (map snd df))"

text \<open>
  \<open>HandlerResponse\<close> and \<open>HandlerStatusResponse\<close> of \<open>mindsdb.integrations.libs.response\<close>,
  with the fields this handler sets.
\<close>

datatype RESPONSE_TYPE = OK | TABLE | ERROR

record HandlerResponse =
  resp_type :: RESPONSE_TYPE
  data_frame :: "DataFrame option"
  error_message :: "string option"

record StatusResponse =
  success :: bool
  status_error_message :: "string option"

definition Response_OK :: HandlerResponse where
  "Response_OK = \<lparr>resp_type = OK, data_frame = None, error_message = None\<rparr>"

definition Response_ERROR :: "string \<Rightarrow> HandlerResponse" where
  "Response_ERROR msg = \<lparr>resp_type = ERROR, data_frame = None, error_message = Some msg\<rparr>"

definition Response_TABLE :: "DataFrame \<Rightarrow> HandlerResponse" where
  "Response_TABLE df = \<lparr>resp_type = TABLE, data_frame = Some df, error_message = None\<rparr>"

section \<open>The vector-store vocabulary\<close>

text \<open>
  Modelled from the spec: the enumerations \<open>TableField\<close> and \<open>FilterOperator\<close> and the
  class \<open>FilterCondition\<close> are declared in \<open>mindsdb.integrations.libs.vectordatabase_handler\<close>,
  which is not part of the handler's file. The spec names the reserved columns
  \<open>id\<close>, \<open>content\<close>, \<open>metadata\<close>, \<open>embeddings\<close>, \<open>search_vector\<close> and \<open>distance\<close>,
  the operators EQUAL, NOT_EQUAL, LESS_THAN, GREATER_THAN, IN "and others", and a
  condition as a column, an operator and a value.
\<close>

definition ID :: string where "ID = ''id''"
definition CONTENT :: string where "CONTENT = ''content''"
definition EMBEDDINGS :: string where "EMBEDDINGS = ''embeddings''"
definition METADATA :: string where "METADATA = ''metadata''"
definition SEARCH_VECTOR :: string where "SEARCH_VECTOR = ''search_vector''"
definition DISTANCE :: string where "DISTANCE = ''distance''"

datatype FilterOperator = EQUAL | NOT_EQUAL | LESS_THAN | GREATER_THAN | IN | OTHER string

record FilterCondition =
  column :: string
  op :: FilterOperator
  val :: pyval

text \<open>The backend's native filter expression: a conjunction of comparisons.\<close>

datatype where_expr = And "(string \<times> FilterOperator \<times> pyval) list"

text \<open>
  Modelled from the spec: \<open>_translate_metadata_condition\<close> is inherited, its code is not
  in the handler's file. The spec (Filter Translator): the input is an optional list of
  conditions; conditions on the search-vector column and on the id column are excluded;
  the remaining ones are conjoined, operator for operator; an empty or absent list
  gives an absent expression. The operations below take the translator as a parameter
  \<open>tr\<close>, so that what is proved of them holds for any translator; this definition
  instantiates it at concrete inputs.
\<close>

definition translate_metadata_condition :: "FilterCondition list option \<Rightarrow> where_expr option" where
  "translate_metadata_condition conditions =
     (case conditions of
        None \<Rightarrow> None
      | Some cs \<Rightarrow>
          (let ms = filter (\<lambda>c. column c \<noteq> SEARCH_VECTOR \<and> column c \<noteq> ID) cs
           in if ms = [] then None
              else Some (And (map (\<lambda>c. (column c, op c, val c)) ms))))"

section \<open>The backend client\<close>

text \<open>
  The client library is an external collaborator. Each method the handler calls is a
  field that gives the call's outcome: an exception or a reply. The handler's
  operations return, with their own outcome, the list of backend calls they issued.
\<close>

record 'b get_result =
  ids :: 'b
  documents :: 'b
  metadatas :: 'b

record 'b query_result = "'b get_result" +
  distances :: 'b

record query_payload =
  where_arg :: "where_expr option"
  query_embeddings :: pyval
  include_arg :: "string list"
  n_results :: "int option"

record collection =
  collection_query :: "query_payload \<Rightarrow> exn + (pyval list list) query_result"
  collection_get :: "pyval list option \<Rightarrow> where_expr option \<Rightarrow> int option \<Rightarrow> int option
                       \<Rightarrow> exn + (pyval list) get_result"
  collection_delete :: "pyval list option \<Rightarrow> where_expr option \<Rightarrow> exn + unit"

record api_response =
  is_success :: bool
  message :: "string option"

record client =
  users_get :: "exn + unit"
  table_create :: "string \<Rightarrow> exn + unit"
  table_set_schema :: "string \<Rightarrow> pyval \<Rightarrow> exn + unit"
  bulk_put_records :: "string \<Rightarrow> row list \<Rightarrow> exn + unit"
  bulk_flush_queue :: "exn + unit"
  records_insert_with_id :: "string \<Rightarrow> pyval \<Rightarrow> row \<Rightarrow> bool \<Rightarrow> string list option
                               \<Rightarrow> exn + api_response"
  records_insert :: "string \<Rightarrow> row \<Rightarrow> string list option \<Rightarrow> exn + api_response"
  get_collection :: "string \<Rightarrow> exn + collection"

datatype backend_call =
    UsersGet
  | TableCreate string
  | TableSetSchema string pyval
  | BulkPutRecords string "row list"
  | BulkFlushQueue
  | RecordsInsertWithId string pyval row bool "string list option"
  | RecordsInsert string row "string list option"
  | GetCollection string
  | CollectionQuery string query_payload
  | CollectionGet string "pyval list option" "where_expr option" "int option" "int option"
  | CollectionDelete string "pyval list option" "where_expr option"

type_synonym 'a traced = "backend_call list \<times> (exn + 'a)"

text \<open>A method call on \<open>self._client\<close> while it is \<open>None\<close>.\<close>

definition NoneType_has_no :: "string \<Rightarrow> exn" where
  "NoneType_has_no attr = AttributeError (quote ''NoneType'' @ '' object has no attribute '' @ quote attr)"

section \<open>The handler\<close>

record client_config =
  db_url :: pyval
  api_key :: pyval

record handler =
  client_config :: client_config
  dimension :: pyval
  client :: "client option"
  is_connected :: bool

type_synonym translator = "FilterCondition list option \<Rightarrow> where_expr option"

subsection \<open>select\<close>

definition vector_filter_of :: "FilterCondition list option \<Rightarrow> FilterCondition option" where
  "vector_filter_of conditions =
     (let vector_filter =
            (case conditions of
               None \<Rightarrow> []
             | Some cs \<Rightarrow> filter (\<lambda>condition. column condition = SEARCH_VECTOR) cs)
      in if length vector_filter > 0 then Some (hd vector_filter) else None)"

definition id_filters_of :: "FilterCondition list \<Rightarrow> pyval list option" where
  "id_filters_of cs = or_None (map val (filter (\<lambda>condition. column condition = ID) cs))"

text \<open>
  Lines 225 to 277 of \<open>select\<close>: look the collection up, translate the conditions, and
  run either the similarity query or the plain retrieval. The result is the four
  column lists; \<open>distances\<close> is \<open>None\<close> on the plain path. In the query payload
  \<open>n_results = None\<close> stands for the key being absent.
\<close>

definition select_fetch ::
  "handler \<Rightarrow> translator \<Rightarrow> string \<Rightarrow> FilterCondition list option \<Rightarrow> int option \<Rightarrow> int option
     \<Rightarrow> (pyval list \<times> pyval list \<times> pyval list \<times> pyval list option) traced" where
  "select_fetch h tr table_name conditions offset limit =
     (case client h of
        None \<Rightarrow> ([], Inl (NoneType_has_no ''get_collection''))
      | Some cl \<Rightarrow>
          (case get_collection cl table_name of
             Inl e \<Rightarrow> ([GetCollection table_name], Inl e)
           | Inr coll \<Rightarrow>
               (let filters = tr conditions;
                    vector_filter = vector_filter_of conditions;
                    id_filters = (case conditions of None \<Rightarrow> None | Some cs \<Rightarrow> id_filters_of cs)
                in case vector_filter of
                     Some vf \<Rightarrow>
                       (let payload = \<lparr>where_arg = filters, query_embeddings = val vf,
                                       include_arg = [''metadatas'', ''documents'', ''distances''],
                                       n_results = limit\<rparr>;
                            calls = [GetCollection table_name, CollectionQuery table_name payload]
                        in case collection_query coll payload of
                             Inl e \<Rightarrow> (calls, Inl e)
                           | Inr result \<Rightarrow>
                               (case index0 (ids result) of
                                  Inl e \<Rightarrow> (calls, Inl e)
                                | Inr ids0 \<Rightarrow>
                               (case index0 (documents result) of
                                  Inl e \<Rightarrow> (calls, Inl e)
                                | Inr documents0 \<Rightarrow>
                               (case index0 (metadatas result) of
                                  Inl e \<Rightarrow> (calls, Inl e)
                                | Inr metadatas0 \<Rightarrow>
                               (case index0 (distances result) of
                                  Inl e \<Rightarrow> (calls, Inl e)
                                | Inr distances0 \<Rightarrow>
                                    (calls, Inr (ids0, documents0, metadatas0, Some distances0)))))))
                   | None \<Rightarrow>
                       (let calls = [GetCollection table_name,
                                     CollectionGet table_name id_filters filters limit offset]
                        in case collection_get coll id_filters filters limit offset of
                             Inl e \<Rightarrow> (calls, Inl e)
                           | Inr result \<Rightarrow>
                               (calls, Inr (ids result, documents result, metadatas result, None))))))"

text \<open>
  The dict comprehension of lines 287 to 291: the columns in the caller's order,
  \<open>embeddings\<close> skipped, each looked up in the payload; a missing key raises.
\<close>

fun project_columns ::
  "(string \<times> 'v) list \<Rightarrow> string list \<Rightarrow> (string \<times> 'v) list \<Rightarrow> exn + (string \<times> 'v) list" where
  "project_columns payload [] acc = Inr acc"
| "project_columns payload (col # cols) acc =
     (if col \<noteq> EMBEDDINGS then
        (case map_of payload col of
           None \<Rightarrow> Inl (KeyError col)
         | Some v \<Rightarrow> project_columns payload cols (dict_set acc col v))
      else project_columns payload cols acc)"

definition select ::
  "handler \<Rightarrow> translator \<Rightarrow> string \<Rightarrow> string list option \<Rightarrow> FilterCondition list option
     \<Rightarrow> int option \<Rightarrow> int option \<Rightarrow> HandlerResponse traced" where
  "select h tr table_name columns conditions offset limit =
     (case select_fetch h tr table_name conditions offset limit of
        (calls, Inl e) \<Rightarrow> (calls, Inl e)
      | (calls, Inr (ids', documents', metadatas', distances')) \<Rightarrow>
          (let payload = [(ID, ids'), (CONTENT, documents'), (METADATA, metadatas')]
           in case (case columns of
                      None \<Rightarrow> Inr payload
                    | Some cols \<Rightarrow> project_columns payload cols []) of
                Inl e \<Rightarrow> (calls, Inl e)
              | Inr payload \<Rightarrow>
                  (let payload = (case distances' of
                                    None \<Rightarrow> payload
                                  | Some d \<Rightarrow> dict_set payload DISTANCE d)
                   in case pd_DataFrame payload of
                        Inl e \<Rightarrow> (calls, Inl e)
                      | Inr result_df \<Rightarrow> (calls, Inr (Response_TABLE result_df)))))"

subsection \<open>delete\<close>

definition delete ::
  "handler \<Rightarrow> translator \<Rightarrow> string \<Rightarrow> FilterCondition list option \<Rightarrow> HandlerResponse traced" where
  "delete h tr table_name conditions =
     (let filters = tr conditions
      in case conditions of
           None \<Rightarrow> ([], Inl (TypeError (quote ''NoneType'' @ '' object is not iterable'')))
         | Some cs \<Rightarrow>
             (let id_filters = id_filters_of cs
              in if filters = None \<and> id_filters = None
                 then ([], Inl (Exception ''Delete query must have at least one condition!''))
                 else
                   (case client h of
                      None \<Rightarrow> ([], Inl (NoneType_has_no ''get_collection''))
                    | Some cl \<Rightarrow>
                        (case get_collection cl table_name of
                           Inl e \<Rightarrow> ([GetCollection table_name], Inl e)
                         | Inr coll \<Rightarrow>
                             (let calls = [GetCollection table_name,
                                           CollectionDelete table_name id_filters filters]
                              in case collection_delete coll id_filters filters of
                                   Inl e \<Rightarrow> (calls, Inl e)
                                 | Inr u \<Rightarrow> (calls, Inr Response_OK))))))"

subsection \<open>Connection\<close>

text \<open>
  \<open>xata.XataClient(**config)\<close> is the library's constructor: a parameter \<open>XataClient\<close>
  that gives a client or raises.
\<close>

definition connect :: "(client_config \<Rightarrow> exn + client) \<Rightarrow> handler \<Rightarrow> handler \<times> client option" where
  "connect XataClient h =
     (if is_connected h = True then (h, client h)
      else
        (case XataClient (client_config h) of
           Inr c \<Rightarrow> (h\<lparr>client := Some c, is_connected := True\<rparr>, Some c)
         | Inl e \<Rightarrow> (h\<lparr>is_connected := False\<rparr>, None)))"

definition disconnect :: "handler \<Rightarrow> handler" where
  "disconnect h =
     (if is_connected h = False then h
      else h\<lparr>client := None, is_connected := False\<rparr>)"

text \<open>
  \<open>__init__\<close>: \<open>connection_data\<close> is the dict of settings (\<open>None\<close> when the keyword
  argument is missing, and then \<open>.get\<close> on it raises). \<open>dict.get(key)\<close> gives \<open>None\<close>
  for a missing key, \<open>dict.get(key, 8)\<close> gives 8.
\<close>

definition init ::
  "(client_config \<Rightarrow> exn + client) \<Rightarrow> (string \<times> pyval) list option \<Rightarrow> exn + handler" where
  "init XataClient connection_data =
     (case connection_data of
        None \<Rightarrow> Inl (NoneType_has_no ''get'')
      | Some cd \<Rightarrow>
          Inr (fst (connect XataClient
            \<lparr>client_config = \<lparr>db_url = dict_get cd ''db_url'' PNone,
                               api_key = dict_get cd ''api_key'' PNone\<rparr>,
             dimension = dict_get cd ''db_url'' (PInt 8),
             client = None,
             is_connected = False\<rparr>)))"

text \<open>The probe of \<open>check_connection\<close>: \<open>self._client.users().get()\<close>.\<close>

definition probe :: "handler \<Rightarrow> exn + unit" where
  "probe h = (case client h of None \<Rightarrow> Inl (NoneType_has_no ''users'') | Some c \<Rightarrow> users_get c)"

definition check_connection :: "handler \<Rightarrow> handler \<times> StatusResponse" where
  "check_connection h =
     (let need_to_close = (is_connected h = False);
          response_code =
            (case probe h of
               Inr u \<Rightarrow> \<lparr>success = True, status_error_message = None\<rparr>
             | Inl e \<Rightarrow> \<lparr>success = False, status_error_message = Some (str e)\<rparr>);
          h1 = (if success response_code = True \<and> need_to_close then disconnect h else h);
          h2 = (if success response_code = False \<and> is_connected h1 = True
                then h1\<lparr>is_connected := False\<rparr> else h1)
      in (h2, response_code))"

subsection \<open>create_table\<close>

definition schema_payload :: "pyval \<Rightarrow> pyval" where
  "schema_payload dim =
     PDict [(''columns'', PList
       [PDict [(''name'', PStr ''embeddings''), (''type'', PStr ''vector''),
               (''vector'', PDict [(''dimension'', dim)])],
        PDict [(''name'', PStr ''content''), (''type'', PStr ''text'')],
        PDict [(''name'', PStr ''metadata''), (''type'', PStr ''json'')]])]"

definition create_table_error :: "string \<Rightarrow> exn \<Rightarrow> HandlerResponse" where
  "create_table_error table_name e =
     Response_ERROR (''Unable to create table '' @ quote table_name @ '': '' @ str e)"

definition create_table :: "handler \<Rightarrow> string \<Rightarrow> HandlerResponse traced" where
  "create_table h table_name =
     (case client h of
        None \<Rightarrow> ([], Inr (create_table_error table_name (NoneType_has_no ''table'')))
      | Some cl \<Rightarrow>
          (case table_create cl table_name of
             Inl e \<Rightarrow> ([TableCreate table_name], Inr (create_table_error table_name e))
           | Inr u \<Rightarrow>
               (let payload = schema_payload (dimension h);
                    calls = [TableCreate table_name, TableSetSchema table_name payload]
                in case table_set_schema cl table_name payload of
                     Inl e \<Rightarrow> (calls, Inr (create_table_error table_name e))
                   | Inr u \<Rightarrow> (calls, Inr Response_OK))))"

subsection \<open>insert\<close>

definition insert_error :: "string \<Rightarrow> exn \<Rightarrow> HandlerResponse" where
  "insert_error table_name e =
     Response_ERROR (''Error inserting data into '' @ quote table_name @ '': '' @ str e)"

text \<open>
  \<open>if not resp.is_success(): raise Exception(resp["message"])\<close>, inside the \<open>try\<close>:
  the exception that the \<open>except\<close> clause receives, if any.
\<close>

definition check_resp :: "api_response \<Rightarrow> exn option" where
  "check_resp resp =
     (if \<not> is_success resp then
        (case message resp of
           None \<Rightarrow> Some (KeyError ''message'')
         | Some m \<Rightarrow> Some (Exception m))
      else None)"

text \<open>
  Lines 159 to 208 of \<open>insert\<close>: the choice of the write path on the list of rows.
  \<open>TableField.ID.value in columns\<close> is evaluated only when the row has an id, and raises
  outside every \<open>try\<close> when \<open>columns\<close> is \<open>None\<close>.
\<close>

definition insert_rows ::
  "handler \<Rightarrow> string \<Rightarrow> row list \<Rightarrow> string list option \<Rightarrow> HandlerResponse traced" where
  "insert_rows h table_name data columns =
     (if length data > 1 then
        (case client h of
           None \<Rightarrow> ([], Inr (insert_error table_name (NoneType_has_no ''records'')))
         | Some cl \<Rightarrow>
             (case bulk_put_records cl table_name data of
                Inl e \<Rightarrow> ([BulkPutRecords table_name data], Inr (insert_error table_name e))
              | Inr u \<Rightarrow>
                  (let calls = [BulkPutRecords table_name data, BulkFlushQueue]
                   in case bulk_flush_queue cl of
                        Inl e \<Rightarrow> (calls, Inr (insert_error table_name e))
                      | Inr u \<Rightarrow> (calls, Inr Response_OK))))
      else if length data = 0 then ([], Inr Response_OK)
      else
        (let row0 = hd data
         in case (if ''id'' \<in> set (keys row0)
                  then (case columns of
                          None \<Rightarrow> Inl (TypeError (''argument of type '' @ quote ''NoneType''
                                                    @ '' is not iterable''))
                        | Some cols \<Rightarrow> Inr (ID \<in> set cols))
                  else Inr False) of
              Inl e \<Rightarrow> ([], Inl e)
            | Inr True \<Rightarrow>
                (let id' = dict_get row0 ''id'' PNone;
                     rest_of_data = dict_del row0 ''id''
                 in case client h of
                      None \<Rightarrow> ([], Inr (insert_error table_name (NoneType_has_no ''records'')))
                    | Some cl \<Rightarrow>
                        (let calls = [RecordsInsertWithId table_name id' rest_of_data True columns]
                         in case records_insert_with_id cl table_name id' rest_of_data True columns of
                              Inl e \<Rightarrow> (calls, Inr (insert_error table_name e))
                            | Inr resp \<Rightarrow>
                                (case check_resp resp of
                                   Some e \<Rightarrow> (calls, Inr (insert_error table_name e))
                                 | None \<Rightarrow> (calls, Inr Response_OK))))
            | Inr False \<Rightarrow>
                (case client h of
                   None \<Rightarrow> ([], Inr (insert_error table_name (NoneType_has_no ''records'')))
                 | Some cl \<Rightarrow>
                     (let calls = [RecordsInsert table_name row0 columns]
                      in case records_insert cl table_name row0 columns of
                           Inl e \<Rightarrow> (calls, Inr (insert_error table_name e))
                         | Inr resp \<Rightarrow>
                             (case check_resp resp of
                                Some e \<Rightarrow> (calls, Inr (insert_error table_name e))
                              | None \<Rightarrow> (calls, Inr Response_OK))))))"

text \<open>
  Line 155 rebinds \<open>data\<close> to the list of row dicts, so lines 157 and 158 act on a
  Python list: a list has no attribute \<open>columns\<close>, and cannot be indexed by a string.
\<close>

definition list_columns :: "row list \<Rightarrow> exn + string list" where
  "list_columns data = Inl (AttributeError (quote ''list'' @ '' object has no attribute '' @ quote ''columns''))"

definition list_getitem_str :: "row list \<Rightarrow> string \<Rightarrow> exn + row list" where
  "list_getitem_str data k = Inl (TypeError ''list indices must be integers or slices, not str'')"

definition insert_op ::
  "handler \<Rightarrow> string \<Rightarrow> DataFrame \<Rightarrow> string list option \<Rightarrow> HandlerResponse traced" where
  "insert_op h table_name data columns =
     (let data = to_dict_records data
      in case list_columns data of
           Inl e \<Rightarrow> ([], Inl e)
         | Inr data_columns \<Rightarrow>
             (case (if ''metadata'' \<in> set data_columns
                    then list_getitem_str data ''metadata''
                    else Inr data) of
                Inl e \<Rightarrow> ([], Inl e)
              | Inr data \<Rightarrow> insert_rows h table_name data columns))"

section \<open>Vocabulary of the properties and sample backends\<close>

text \<open>
  The condition list holds a condition on the reserved search-vector column.
\<close>

definition has_vector_condition :: "FilterCondition list option \<Rightarrow> bool" where
  "has_vector_condition conditions =
     (case conditions of None \<Rightarrow> False
      | Some cs \<Rightarrow> list_ex (\<lambda>c. column c = SEARCH_VECTOR) cs)"

text \<open>
  The kinds of backend call that the properties count in a trace.
\<close>

fun is_query_call :: "backend_call \<Rightarrow> bool" where
  "is_query_call (CollectionQuery t p) = True"
| "is_query_call c = False"

fun is_get_call :: "backend_call \<Rightarrow> bool" where
  "is_get_call (CollectionGet t i f l off) = True"
| "is_get_call c = False"

fun is_delete_call :: "backend_call \<Rightarrow> bool" where
  "is_delete_call (CollectionDelete t i f) = True"
| "is_delete_call c = False"

text \<open>
  The columns of the payload before projection (lines 280 to 284).
\<close>

definition uniform_columns :: "string set" where
  "uniform_columns = {ID, CONTENT, METADATA}"

text \<open>
  A backend that answers every call: the similarity query with one batch of two
  records, the plain retrieval with one record.
\<close>

definition demo_collection :: collection where
  "demo_collection =
     \<lparr>collection_query = (\<lambda>p. Inr \<lparr>ids = [[PStr ''a'', PStr ''b'']],
                                     documents = [[PStr ''x'', PStr ''y'']],
                                     metadatas = [[PNone, PNone]],
                                     distances = [[PFloat 1 (-1), PFloat 3 (-2)]]\<rparr>),
      collection_get = (\<lambda>i f l off. Inr \<lparr>ids = [PStr ''a''], documents = [PStr ''x''],
                                           metadatas = [PNone]\<rparr>),
      collection_delete = (\<lambda>i f. Inr ())\<rparr>"

definition ok_response :: api_response where
  "ok_response = \<lparr>is_success = True, message = None\<rparr>"

definition demo_client :: client where
  "demo_client =
     \<lparr>users_get = Inr (),
      table_create = (\<lambda>t. Inr ()),
      table_set_schema = (\<lambda>t p. Inr ()),
      bulk_put_records = (\<lambda>t rs. Inr ()),
      bulk_flush_queue = Inr (),
      records_insert_with_id = (\<lambda>t i r c cols. Inr ok_response),
      records_insert = (\<lambda>t r cols. Inr ok_response),
      get_collection = (\<lambda>t. Inr demo_collection)\<rparr>"

definition demo_handler :: handler where
  "demo_handler =
     \<lparr>client_config = \<lparr>db_url = PStr ''https://x'', api_key = PStr ''k''\<rparr>,
      dimension = PStr ''https://x'',
      client = Some demo_client,
      is_connected = True\<rparr>"

definition search_condition :: FilterCondition where
  "search_condition = \<lparr>column = ''search_vector'', op = EQUAL, val = PList [PFloat 1 (-1), PFloat 2 (-1)]\<rparr>"

definition id_condition :: FilterCondition where
  "id_condition = \<lparr>column = ''id'', op = EQUAL, val = PStr ''a''\<rparr>"

text \<open>
  A backend whose collection is found and whose every other call raises.
\<close>

definition failing_collection :: collection where
  "failing_collection =
     \<lparr>collection_query = (\<lambda>p. Inl (Exception ''backend unavailable'')),
      collection_get = (\<lambda>i f l off. Inl (Exception ''backend unavailable'')),
      collection_delete = (\<lambda>i f. Inl (Exception ''backend unavailable''))\<rparr>"

definition failing_client :: client where
  "failing_client =
     \<lparr>users_get = Inl (Exception ''backend unavailable''),
      table_create = (\<lambda>t. Inl (Exception ''backend unavailable'')),
      table_set_schema = (\<lambda>t p. Inl (Exception ''backend unavailable'')),
      bulk_put_records = (\<lambda>t rs. Inl (Exception ''backend unavailable'')),
      bulk_flush_queue = Inl (Exception ''backend unavailable''),
      records_insert_with_id = (\<lambda>t i r c cols. Inl (Exception ''backend unavailable'')),
      records_insert = (\<lambda>t r cols. Inl (Exception ''backend unavailable'')),
      get_collection = (\<lambda>t. Inr failing_collection)\<rparr>"

definition failing_handler :: handler where
  "failing_handler = demo_handler\<lparr>client := Some failing_client\<rparr>"

text \<open>
  The exception of line 320, the exception of line 157, and a configuration that sets
  all three connection arguments.
\<close>

definition usage_error :: exn where
  "usage_error = Exception ''Delete query must have at least one condition!''"

definition list_has_no_columns :: exn where
  "list_has_no_columns =
     AttributeError (quote ''list'' @ '' object has no attribute '' @ quote ''columns'')"

definition sample_connection_data :: "(string \<times> pyval) list" where
  "sample_connection_data =
     [(''db_url'', PStr ''https://x''), (''api_key'', PStr ''k''), (''dimension'', PInt 16)]"




definition already_exists :: api_response where
  "already_exists = \<lparr>is_success = False, message = Some ''record with id r1 already exists''\<rparr>"

definition occupied_client :: client where
  "occupied_client =
     demo_client\<lparr>records_insert_with_id :=
       (\<lambda>t i r create_only cols.
          if i = PStr ''r1'' \<and> create_only then Inr already_exists else Inr ok_response)\<rparr>"

definition occupied_handler :: handler where
  "occupied_handler = demo_handler\<lparr>client := Some occupied_client\<rparr>"

definition row_with_id :: row where
  "row_with_id = [(''id'', PStr ''r1''), (''content'', PStr ''a'')]"

section \<open>Properties\<close>

lemmas TableField_defs = ID_def CONTENT_def EMBEDDINGS_def METADATA_def SEARCH_VECTOR_def DISTANCE_def

lemma keys_dict_set: "set (keys (dict_set d k v)) = insert k (set (keys d))"
  by (induction d k v rule: dict_set.induct) (auto simp: keys_def)

lemma distinct_keys_dict_set: "distinct (keys d) \<Longrightarrow> distinct (keys (dict_set d k v))"
proof (induction d k v rule: dict_set.induct)
  case (1 k v)
  then show ?case by (simp add: keys_def)
next
  case (2 k' v' d k v)
  have "set (keys (dict_set d k v)) = insert k (set (keys d))" by (rule keys_dict_set)
  with 2 show ?case by (auto simp: keys_def)
qed

lemma project_columns_keys:
  "project_columns payload cols acc = Inr p \<Longrightarrow>
     set (keys p) = set (keys acc) \<union> (set cols - {EMBEDDINGS})"
proof (induction payload cols acc rule: project_columns.induct)
  case (1 payload acc)
  then show ?case by simp
next
  case (2 payload col cols acc)
  then show ?case
    by (auto simp: keys_dict_set split: if_splits option.splits)
qed

lemma project_columns_distinct:
  "project_columns payload cols acc = Inr p \<Longrightarrow> distinct (keys acc) \<Longrightarrow> distinct (keys p)"
proof (induction payload cols acc rule: project_columns.induct)
  case (1 payload acc)
  then show ?case by simp
next
  case (2 payload col cols acc)
  then show ?case
    by (auto simp: distinct_keys_dict_set split: if_splits option.splits)
qed

lemma map_of_Some_keys: "map_of d k = Some v \<Longrightarrow> k \<in> fst ` set d"
  using map_of_eq_None_iff [of d k] by simp

lemma project_columns_Inr_iff:
  "(\<exists>p. project_columns payload cols acc = Inr p) \<longleftrightarrow>
     (\<forall>c \<in> set cols. c = EMBEDDINGS \<or> c \<in> set (keys payload))"
proof (induction payload cols acc rule: project_columns.induct)
  case (1 payload acc)
  then show ?case by simp
next
  case (2 payload col cols acc)
  then show ?case
    by (auto simp: keys_def map_of_eq_None_iff dest: map_of_Some_keys split: option.splits)
qed

lemma project_columns_error:
  "project_columns payload cols acc = Inl e \<Longrightarrow>
     \<exists>k \<in> set cols. e = KeyError k \<and> k \<noteq> EMBEDDINGS \<and> k \<notin> set (keys payload)"
proof (induction payload cols acc rule: project_columns.induct)
  case (1 payload acc)
  then show ?case by simp
next
  case (2 payload col cols acc)
  then show ?case
    by (auto simp: keys_def map_of_eq_None_iff dest: map_of_Some_keys split: option.splits if_splits)
qed

lemma vector_filter_of_eq_None: "vector_filter_of conditions = None \<longleftrightarrow> \<not> has_vector_condition conditions"
  by (auto simp: vector_filter_of_def has_vector_condition_def Let_def list_ex_iff filter_empty_conv
           split: option.splits)

lemma select_fetch_distances:
  assumes "select_fetch h tr table_name conditions offset limit = (calls, Inr (i, d, m, dist))"
  shows "dist \<noteq> None \<longleftrightarrow> has_vector_condition conditions"
proof (cases "vector_filter_of conditions")
  case None
  with assms have "dist = None"
    by (auto simp: select_fetch_def Let_def split: option.splits sum.splits)
  with None show ?thesis by (simp add: vector_filter_of_eq_None)
next
  case (Some vf)
  with assms have "dist \<noteq> None"
    by (auto simp: select_fetch_def Let_def split: option.splits sum.splits)
  moreover from Some have "has_vector_condition conditions"
    using vector_filter_of_eq_None [of conditions] by simp
  ultimately show ?thesis by simp
qed

lemma select_fetch_calls:
  "list_ex is_query_call (fst (select_fetch h tr table_name conditions offset limit))
     \<longrightarrow> has_vector_condition conditions"
  "list_ex is_get_call (fst (select_fetch h tr table_name conditions offset limit))
     \<longrightarrow> \<not> has_vector_condition conditions"
  using vector_filter_of_eq_None [of conditions]
  by (auto simp: select_fetch_def Let_def split: option.splits sum.splits)

lemma select_fetch_returned_calls:
  assumes "select_fetch h tr table_name conditions offset limit = (calls, Inr x)"
  shows "list_ex is_query_call calls \<longleftrightarrow> has_vector_condition conditions"
    and "list_ex is_get_call calls \<longleftrightarrow> \<not> has_vector_condition conditions"
  using assms vector_filter_of_eq_None [of conditions]
  by (auto simp: select_fetch_def Let_def split: option.splits sum.splits)

lemma select_calls: "fst (select h tr table_name columns conditions offset limit)
    = fst (select_fetch h tr table_name conditions offset limit)"
  by (auto simp: select_def Let_def split: prod.splits sum.splits option.splits)

lemma select_returns:
  assumes "select h tr table_name columns conditions offset limit = (calls, Inr r)"
  obtains i d m dist p where
    "select_fetch h tr table_name conditions offset limit = (calls, Inr (i, d, m, dist))"
    "(case columns of None \<Rightarrow> Inr [(ID, i), (CONTENT, d), (METADATA, m)]
      | Some cols \<Rightarrow> project_columns [(ID, i), (CONTENT, d), (METADATA, m)] cols []) = Inr p"
    "r = Response_TABLE (case dist of None \<Rightarrow> p | Some ds \<Rightarrow> dict_set p DISTANCE ds)"
  using assms
  by (auto simp: select_def Let_def pd_DataFrame_def split: prod.splits sum.splits if_splits)

lemma map_of_dict_set: "map_of (dict_set d k v) = (map_of d)(k \<mapsto> v)"
  by (induction d k v rule: dict_set.induct) auto

lemma map_of_keys: "map_of d k \<noteq> None \<longleftrightarrow> k \<in> set (keys d)"
  by (simp add: keys_def map_of_eq_None_iff)

lemma TableField_distinct:
  "DISTANCE \<noteq> ID" "DISTANCE \<noteq> CONTENT" "DISTANCE \<noteq> METADATA" "DISTANCE \<noteq> EMBEDDINGS"
  "EMBEDDINGS \<noteq> ID" "EMBEDDINGS \<noteq> CONTENT" "EMBEDDINGS \<noteq> METADATA"
  by (simp_all add: TableField_defs)

lemma select_keys:
  assumes "select h tr table_name columns conditions offset limit = (calls, Inr r)"
  shows "\<exists>df. r = Response_TABLE df \<and> distinct (keys df) \<and>
           set (keys df) =
             (case columns of None \<Rightarrow> uniform_columns | Some cols \<Rightarrow> set cols - {EMBEDDINGS})
             \<union> (if has_vector_condition conditions then {DISTANCE} else {})"
proof -
  from assms obtain i d m dist p where
    f: "select_fetch h tr table_name conditions offset limit = (calls, Inr (i, d, m, dist))" and
    p: "(case columns of None \<Rightarrow> Inr [(ID, i), (CONTENT, d), (METADATA, m)]
         | Some cols \<Rightarrow> project_columns [(ID, i), (CONTENT, d), (METADATA, m)] cols []) = Inr p" and
    r: "r = Response_TABLE (case dist of None \<Rightarrow> p | Some ds \<Rightarrow> dict_set p DISTANCE ds)"
    by (rule select_returns)
  have pk: "set (keys p) =
      (case columns of None \<Rightarrow> uniform_columns | Some cols \<Rightarrow> set cols - {EMBEDDINGS})"
  proof (cases columns)
    case None
    with p show ?thesis by (auto simp: keys_def uniform_columns_def)
  next
    case (Some cols)
    with p have "project_columns [(ID, i), (CONTENT, d), (METADATA, m)] cols [] = Inr p" by simp
    from project_columns_keys [OF this] Some show ?thesis by (simp add: keys_def)
  qed
  have pd: "distinct (keys p)"
  proof (cases columns)
    case None
    with p show ?thesis by (auto simp: keys_def TableField_defs)
  next
    case (Some cols)
    with p have "project_columns [(ID, i), (CONTENT, d), (METADATA, m)] cols [] = Inr p" by simp
    from project_columns_distinct [OF this] show ?thesis by (simp add: keys_def)
  qed
  have dv: "dist \<noteq> None \<longleftrightarrow> has_vector_condition conditions"
    by (rule select_fetch_distances [OF f])
  let ?df = "case dist of None \<Rightarrow> p | Some ds \<Rightarrow> dict_set p DISTANCE ds"
  have "distinct (keys ?df)"
    using pd by (cases dist) (simp_all add: distinct_keys_dict_set)
  moreover have "set (keys ?df) =
      (case columns of None \<Rightarrow> uniform_columns | Some cols \<Rightarrow> set cols - {EMBEDDINGS})
      \<union> (if has_vector_condition conditions then {DISTANCE} else {})"
    using pk dv by (cases dist) (simp_all add: keys_dict_set)
  ultimately show ?thesis using r by blast
qed

text \<open>
  Claim C1. Whenever \<open>select\<close> returns, its result is a table that has a distance
  column exactly when the condition list holds a condition on the reserved
  search-vector column; the similarity query was issued exactly in that case and the
  plain retrieval exactly in the other, so a select is never both. The backend's reply
  to the similarity query is typed as the spec gives it: each requested field is a list
  of batches, so the first batch of distances, when there is one, is a list and not
  \<open>None\<close>.
\<close>

theorem select_distance_iff_vector_condition:
  assumes "select h tr table_name columns conditions offset limit = (calls, Inr r)"
  shows "(\<exists>df. r = Response_TABLE df \<and>
            ((\<exists>ds. map_of df DISTANCE = Some ds) \<longleftrightarrow> has_vector_condition conditions))
         \<and> (list_ex is_query_call calls \<longleftrightarrow> has_vector_condition conditions)
         \<and> (list_ex is_get_call calls \<longleftrightarrow> \<not> has_vector_condition conditions)"
proof -
  from select_keys [OF assms] obtain df where
    df: "r = Response_TABLE df" and
    ks: "set (keys df) =
           (case columns of None \<Rightarrow> uniform_columns | Some cols \<Rightarrow> set cols - {EMBEDDINGS})
           \<union> (if has_vector_condition conditions then {DISTANCE} else {})"
    by blast
  from assms obtain i d m dist p where
    f: "select_fetch h tr table_name conditions offset limit = (calls, Inr (i, d, m, dist))" and
    p: "(case columns of None \<Rightarrow> Inr [(ID, i), (CONTENT, d), (METADATA, m)]
         | Some cols \<Rightarrow> project_columns [(ID, i), (CONTENT, d), (METADATA, m)] cols []) = Inr p"
    by (rule select_returns)
  have nd: "DISTANCE \<notin> (case columns of None \<Rightarrow> uniform_columns | Some cols \<Rightarrow> set cols - {EMBEDDINGS})"
  proof (cases columns)
    case None
    then show ?thesis by (simp add: uniform_columns_def TableField_distinct)
  next
    case (Some cols)
    with p have "\<exists>q. project_columns [(ID, i), (CONTENT, d), (METADATA, m)] cols [] = Inr q" by simp
    then have "\<forall>c \<in> set cols. c = EMBEDDINGS \<or> c \<in> set (keys [(ID, i), (CONTENT, d), (METADATA, m)])"
      by (simp only: project_columns_Inr_iff)
    then have "DISTANCE \<notin> set cols"
      by (auto simp: keys_def TableField_distinct)
    with Some show ?thesis by simp
  qed
  have "(\<exists>ds. map_of df DISTANCE = Some ds) \<longleftrightarrow> DISTANCE \<in> set (keys df)"
    using map_of_keys [of df DISTANCE] by auto
  also have "\<dots> \<longleftrightarrow> has_vector_condition conditions"
    using ks nd by auto
  finally have "(\<exists>ds. map_of df DISTANCE = Some ds) \<longleftrightarrow> has_vector_condition conditions" .
  with df select_fetch_returned_calls [OF f] show ?thesis by blast
qed

lemma demo_similarity_select:
  "select demo_handler translate_metadata_condition ''docs'' (Some [''id'', ''content''])
     (Some [search_condition]) None (Some 5) =
   ([GetCollection ''docs'',
     CollectionQuery ''docs''
       \<lparr>where_arg = None, query_embeddings = PList [PFloat 1 (-1), PFloat 2 (-1)],
        include_arg = [''metadatas'', ''documents'', ''distances''], n_results = Some 5\<rparr>],
    Inr (Response_TABLE [(''id'', [PStr ''a'', PStr ''b'']), (''content'', [PStr ''x'', PStr ''y'']),
                         (''distance'', [PFloat 1 (-1), PFloat 3 (-2)])]))"
  by code_simp

lemma demo_plain_select:
  "select demo_handler translate_metadata_condition ''docs'' None None None None =
   ([GetCollection ''docs'', CollectionGet ''docs'' None None None None],
    Inr (Response_TABLE [(''id'', [PStr ''a'']), (''content'', [PStr ''x'']),
                         (''metadata'', [PNone])]))"
  by code_simp

theorem select_distance_iff_vector_condition_witness:
  "select demo_handler translate_metadata_condition ''docs'' (Some [''id'', ''content''])
     (Some [search_condition]) None (Some 5) =
   ([GetCollection ''docs'',
     CollectionQuery ''docs''
       \<lparr>where_arg = None, query_embeddings = PList [PFloat 1 (-1), PFloat 2 (-1)],
        include_arg = [''metadatas'', ''documents'', ''distances''], n_results = Some 5\<rparr>],
    Inr (Response_TABLE [(''id'', [PStr ''a'', PStr ''b'']), (''content'', [PStr ''x'', PStr ''y'']),
                         (''distance'', [PFloat 1 (-1), PFloat 3 (-2)])]))
   \<and> select demo_handler translate_metadata_condition ''docs'' None None None None =
   ([GetCollection ''docs'', CollectionGet ''docs'' None None None None],
    Inr (Response_TABLE [(''id'', [PStr ''a'']), (''content'', [PStr ''x'']),
                         (''metadata'', [PNone])]))
   \<and> has_vector_condition (Some [search_condition])
   \<and> (\<exists>ds. map_of [(''id'', [PStr ''a'', PStr ''b'']), (''content'', [PStr ''x'', PStr ''y'']),
                     (''distance'', [PFloat 1 (-1), PFloat 3 (-2)])] DISTANCE = Some ds)
   \<and> \<not> has_vector_condition None
   \<and> \<not> (\<exists>ds. map_of [(''id'', [PStr ''a'']), (''content'', [PStr ''x'']), (''metadata'', [PNone])]
              DISTANCE = Some ds)"
  using demo_similarity_select demo_plain_select
        select_distance_iff_vector_condition [OF demo_similarity_select]
        select_distance_iff_vector_condition [OF demo_plain_select]
  by (simp add: Response_TABLE_def has_vector_condition_def)

text \<open>
  The projection on the calls that return: with a projection list the columns are the
  listed ones without \<open>embeddings\<close>; without one, the three uniform columns; the
  distance column is added exactly when the search was a similarity search; and every
  column holds the list that the backend gave under that name.
\<close>

lemma select_projection:
  assumes "select h tr table_name columns conditions offset limit = (calls, Inr r)"
  shows "\<exists>df. r = Response_TABLE df \<and> EMBEDDINGS \<notin> set (keys df) \<and> distinct (keys df) \<and>
           set (keys df) =
             (case columns of None \<Rightarrow> {ID, CONTENT, METADATA} | Some cols \<Rightarrow> set cols - {EMBEDDINGS})
             \<union> (if has_vector_condition conditions then {DISTANCE} else {})"
proof -
  from select_keys [OF assms] obtain df where
    df: "r = Response_TABLE df" "distinct (keys df)" and
    ks: "set (keys df) =
           (case columns of None \<Rightarrow> uniform_columns | Some cols \<Rightarrow> set cols - {EMBEDDINGS})
           \<union> (if has_vector_condition conditions then {DISTANCE} else {})"
    by blast
  from ks have ks': "set (keys df) =
           (case columns of None \<Rightarrow> {ID, CONTENT, METADATA} | Some cols \<Rightarrow> set cols - {EMBEDDINGS})
           \<union> (if has_vector_condition conditions then {DISTANCE} else {})"
    by (simp only: uniform_columns_def)
  from ks have "EMBEDDINGS \<notin> set (keys df)"
    by (cases columns)
       (auto simp: uniform_columns_def TableField_distinct TableField_distinct [symmetric]
             split: if_splits)
  with df ks' show ?thesis by blast
qed

lemma select_projection_example:
  "select demo_handler translate_metadata_condition ''docs'' (Some [''embeddings'', ''content'', ''id''])
     (Some [search_condition]) None (Some 5) =
   ([GetCollection ''docs'',
     CollectionQuery ''docs''
       \<lparr>where_arg = None, query_embeddings = PList [PFloat 1 (-1), PFloat 2 (-1)],
        include_arg = [''metadatas'', ''documents'', ''distances''], n_results = Some 5\<rparr>],
    Inr (Response_TABLE [(''content'', [PStr ''x'', PStr ''y'']), (''id'', [PStr ''a'', PStr ''b'']),
                         (''distance'', [PFloat 1 (-1), PFloat 3 (-2)])]))
   \<and> set (keys [(''content'', [PStr ''x'', PStr ''y'']), (''id'', [PStr ''a'', PStr ''b'']),
                (''distance'', [PFloat 1 (-1), PFloat 3 (-2)])])
       = set [''embeddings'', ''content'', ''id''] - {EMBEDDINGS} \<union> {DISTANCE}"
proof -
  have h: "select demo_handler translate_metadata_condition ''docs''
     (Some [''embeddings'', ''content'', ''id'']) (Some [search_condition]) None (Some 5) =
   ([GetCollection ''docs'',
     CollectionQuery ''docs''
       \<lparr>where_arg = None, query_embeddings = PList [PFloat 1 (-1), PFloat 2 (-1)],
        include_arg = [''metadatas'', ''documents'', ''distances''], n_results = Some 5\<rparr>],
    Inr (Response_TABLE [(''content'', [PStr ''x'', PStr ''y'']), (''id'', [PStr ''a'', PStr ''b'']),
                         (''distance'', [PFloat 1 (-1), PFloat 3 (-2)])]))"
    by code_simp
  have v: "has_vector_condition (Some [search_condition])"
    by code_simp
  show ?thesis
    using h v select_projection [OF h]
    by (simp add: Response_TABLE_def)
qed

lemma project_columns_map_of:
  "project_columns payload cols acc = Inr p \<Longrightarrow>
     map_of p k = (if k \<in> set cols \<and> k \<noteq> EMBEDDINGS then map_of payload k else map_of acc k)"
proof (induction payload cols acc rule: project_columns.induct)
  case (1 payload acc)
  then show ?case by simp
next
  case (2 payload col cols acc)
  then show ?case
    by (auto simp: map_of_dict_set split: if_splits option.splits)
qed

lemma select_projection_data:
  assumes "select h tr table_name columns conditions offset limit = (calls, Inr r)"
  shows "\<exists>i d m dist df.
           select_fetch h tr table_name conditions offset limit = (calls, Inr (i, d, m, dist))
           \<and> r = Response_TABLE df
           \<and> (\<forall>k ds. map_of df k = Some ds \<longrightarrow>
                 (k = ID \<and> ds = i) \<or> (k = CONTENT \<and> ds = d) \<or> (k = METADATA \<and> ds = m)
                 \<or> (k = DISTANCE \<and> dist = Some ds))"
proof -
  from assms obtain i d m dist p where
    f: "select_fetch h tr table_name conditions offset limit = (calls, Inr (i, d, m, dist))" and
    p: "(case columns of None \<Rightarrow> Inr [(ID, i), (CONTENT, d), (METADATA, m)]
         | Some cols \<Rightarrow> project_columns [(ID, i), (CONTENT, d), (METADATA, m)] cols []) = Inr p" and
    r: "r = Response_TABLE (case dist of None \<Rightarrow> p | Some ds \<Rightarrow> dict_set p DISTANCE ds)"
    by (rule select_returns)
  have base: "(k = ID \<and> ds = i) \<or> (k = CONTENT \<and> ds = d) \<or> (k = METADATA \<and> ds = m)"
    if "map_of p k = Some ds" for k ds
  proof (cases columns)
    case None
    with p that show ?thesis by (auto split: if_splits)
  next
    case (Some cols)
    with p have "project_columns [(ID, i), (CONTENT, d), (METADATA, m)] cols [] = Inr p" by simp
    from project_columns_map_of [OF this, of k] that show ?thesis
      by (auto split: if_splits)
  qed
  let ?df = "case dist of None \<Rightarrow> p | Some ds \<Rightarrow> dict_set p DISTANCE ds"
  have "(k = ID \<and> ds = i) \<or> (k = CONTENT \<and> ds = d) \<or> (k = METADATA \<and> ds = m)
          \<or> (k = DISTANCE \<and> dist = Some ds)"
    if "map_of ?df k = Some ds" for k ds
    using that base [of k ds]
    by (cases dist) (auto simp: map_of_dict_set split: if_splits)
  with f r show ?thesis by blast
qed

text \<open>
  Claim C4 says that the result has the requested columns without \<open>embeddings\<close>, all
  uniform columns when no list is given, and the distance column after a similarity
  search whether or not the projection list names it; the comment of line 293 says the
  same (always include distance). For the lists that do not name it the lemmas above
  show that. A list that names it is not served: the projection of lines 286 to 291
  looks \<open>distance\<close> up in a payload that receives it only at line 295, and the call
  raises \<open>KeyError\<close> instead of returning the table with its distance column.
\<close>

theorem select_named_distance_raises:
  "select demo_handler translate_metadata_condition ''docs'' (Some [''content'', ''distance''])
     (Some [search_condition]) None (Some 5) =
   ([GetCollection ''docs'',
     CollectionQuery ''docs''
       \<lparr>where_arg = None, query_embeddings = PList [PFloat 1 (-1), PFloat 2 (-1)],
        include_arg = [''metadatas'', ''documents'', ''distances''], n_results = Some 5\<rparr>],
    Inl (KeyError ''distance''))"
  by code_simp

text \<open>
  Claim C10. With a projection list, the lookup of lines 287 to 291 succeeds exactly when
  every listed column is \<open>embeddings\<close>, \<open>id\<close>, \<open>content\<close> or \<open>metadata\<close>. When the list
  names any other column, \<open>distance\<close> included, \<open>select\<close> never returns a response, and
  as soon as the backend part of the call has gone through it raises \<open>KeyError\<close> on
  such a column.
\<close>

theorem select_unknown_column_raises:
  "((\<exists>p. project_columns [(ID, i :: pyval list), (CONTENT, d), (METADATA, m)] cols [] = Inr p)
      \<longleftrightarrow> set cols \<subseteq> {EMBEDDINGS, ID, CONTENT, METADATA})
   \<and> (\<not> set cols \<subseteq> {EMBEDDINGS, ID, CONTENT, METADATA} \<longrightarrow>
        (\<forall>r. snd (select h tr table_name (Some cols) conditions offset limit) \<noteq> Inr r)
        \<and> (\<forall>calls x. select_fetch h tr table_name conditions offset limit = (calls, Inr x) \<longrightarrow>
              (\<exists>k \<in> set cols. k \<notin> {EMBEDDINGS, ID, CONTENT, METADATA} \<and>
                 select h tr table_name (Some cols) conditions offset limit = (calls, Inl (KeyError k)))))"
proof -
  have iff: "\<And>(i :: pyval list) d m. (\<exists>p. project_columns [(ID, i), (CONTENT, d), (METADATA, m)] cols [] = Inr p)
      \<longleftrightarrow> set cols \<subseteq> {EMBEDDINGS, ID, CONTENT, METADATA}"
    by (simp only: project_columns_Inr_iff) (auto simp: keys_def)
  have no_return: "snd (select h tr table_name (Some cols) conditions offset limit) \<noteq> Inr r"
    if bad: "\<not> set cols \<subseteq> {EMBEDDINGS, ID, CONTENT, METADATA}" for r
  proof
    assume "snd (select h tr table_name (Some cols) conditions offset limit) = Inr r"
    then have eq: "select h tr table_name (Some cols) conditions offset limit
                 = (fst (select h tr table_name (Some cols) conditions offset limit), Inr r)"
      by (metis prod.collapse)
    show False
    proof (rule select_returns [OF eq])
      fix i d m :: "pyval list" and p
      assume "(case Some cols of None \<Rightarrow> Inr [(ID, i), (CONTENT, d), (METADATA, m)]
        | Some cols \<Rightarrow> project_columns [(ID, i), (CONTENT, d), (METADATA, m)] cols []) = Inr p"
      then have "\<exists>p. project_columns [(ID, i), (CONTENT, d), (METADATA, m)] cols [] = Inr p"
        by simp
      with iff bad show False by blast
    qed
  qed
  have key_error: "\<exists>k \<in> set cols. k \<notin> {EMBEDDINGS, ID, CONTENT, METADATA} \<and>
        select h tr table_name (Some cols) conditions offset limit = (calls, Inl (KeyError k))"
    if bad: "\<not> set cols \<subseteq> {EMBEDDINGS, ID, CONTENT, METADATA}"
      and f: "select_fetch h tr table_name conditions offset limit = (calls, Inr x)" for calls x
  proof -
    obtain i d m dist where x: "x = (i, d, m, dist)" by (cases x) auto
    from iff [of i d m] bad obtain e where
      e: "project_columns [(ID, i), (CONTENT, d), (METADATA, m)] cols [] = Inl e"
      by (cases "project_columns [(ID, i), (CONTENT, d), (METADATA, m)] cols []") auto
    from project_columns_error [OF e] obtain k where
      k: "k \<in> set cols" "e = KeyError k" "k \<noteq> EMBEDDINGS"
         "k \<notin> set (keys [(ID, i), (CONTENT, d), (METADATA, m)])"
      by blast
    from f x e have "select h tr table_name (Some cols) conditions offset limit = (calls, Inl e)"
      by (simp add: select_def)
    with k show ?thesis by (auto simp: keys_def)
  qed
  from iff no_return key_error show ?thesis by blast
qed

theorem select_unknown_column_raises_witness:
  "\<not> set [''id'', ''distance''] \<subseteq> {EMBEDDINGS, ID, CONTENT, METADATA}
   \<and> select_fetch demo_handler translate_metadata_condition ''docs'' (Some [search_condition]) None None =
       ([GetCollection ''docs'',
         CollectionQuery ''docs''
           \<lparr>where_arg = None, query_embeddings = PList [PFloat 1 (-1), PFloat 2 (-1)],
            include_arg = [''metadatas'', ''documents'', ''distances''], n_results = None\<rparr>],
        Inr ([PStr ''a'', PStr ''b''], [PStr ''x'', PStr ''y''], [PNone, PNone],
             Some [PFloat 1 (-1), PFloat 3 (-2)]))
   \<and> select demo_handler translate_metadata_condition ''docs'' (Some [''id'', ''distance''])
        (Some [search_condition]) None None =
       ([GetCollection ''docs'',
         CollectionQuery ''docs''
           \<lparr>where_arg = None, query_embeddings = PList [PFloat 1 (-1), PFloat 2 (-1)],
            include_arg = [''metadatas'', ''documents'', ''distances''], n_results = None\<rparr>],
        Inl (KeyError ''distance''))
   \<and> (\<forall>r. snd (select demo_handler translate_metadata_condition ''docs'' (Some [''id'', ''distance''])
        (Some [search_condition]) None None) \<noteq> Inr r)"
proof -
  have bad: "\<not> set [''id'', ''distance''] \<subseteq> {EMBEDDINGS, ID, CONTENT, METADATA}"
    by (simp add: TableField_defs)
  have run: "select demo_handler translate_metadata_condition ''docs'' (Some [''id'', ''distance''])
        (Some [search_condition]) None None =
       ([GetCollection ''docs'',
         CollectionQuery ''docs''
           \<lparr>where_arg = None, query_embeddings = PList [PFloat 1 (-1), PFloat 2 (-1)],
            include_arg = [''metadatas'', ''documents'', ''distances''], n_results = None\<rparr>],
        Inl (KeyError ''distance''))"
    by code_simp
  have fetch: "select_fetch demo_handler translate_metadata_condition ''docs''
        (Some [search_condition]) None None =
       ([GetCollection ''docs'',
         CollectionQuery ''docs''
           \<lparr>where_arg = None, query_embeddings = PList [PFloat 1 (-1), PFloat 2 (-1)],
            include_arg = [''metadatas'', ''documents'', ''distances''], n_results = None\<rparr>],
        Inr ([PStr ''a'', PStr ''b''], [PStr ''x'', PStr ''y''], [PNone, PNone],
             Some [PFloat 1 (-1), PFloat 3 (-2)]))"
    by code_simp
  from bad run fetch
    select_unknown_column_raises [of "[]" "[]" "[]" "[''id'', ''distance'']"
      demo_handler translate_metadata_condition "''docs''" "Some [search_condition]" None None]
  show ?thesis by blast
qed

lemma id_filters_of_eq_None: "id_filters_of cs = None \<longleftrightarrow> \<not> list_ex (\<lambda>c. column c = ID) cs"
  by (auto simp: id_filters_of_def or_None_def list_ex_iff filter_empty_conv)

lemma delete_without_list:
  "delete h tr table_name None = ([], Inl (TypeError (quote ''NoneType'' @ '' object is not iterable'')))"
  by (simp add: delete_def)

lemma delete_at_most_one_call:
  "length (filter is_delete_call (fst (delete h tr table_name conditions))) \<le> 1"
  by (auto simp: delete_def Let_def split: option.splits sum.splits)




text \<open>
  Claim C9. When the probe of \<open>check_connection\<close> fails, the handler is disconnected
  afterwards whatever its state was before; when the handler was disconnected before
  and the probe succeeds, it is disconnected afterwards as well.
\<close>

theorem check_connection_state:
  "((\<exists>e. probe h = Inl e) \<longrightarrow>
      is_connected (fst (check_connection h)) = False \<and> success (snd (check_connection h)) = False)
   \<and> (is_connected h = False \<and> probe h = Inr () \<longrightarrow>
      is_connected (fst (check_connection h)) = False \<and> success (snd (check_connection h)) = True)"
  by (auto simp: check_connection_def disconnect_def Let_def)

theorem check_connection_state_witness:
  "is_connected failing_handler = True
   \<and> probe failing_handler = Inl (Exception ''backend unavailable'')
   \<and> is_connected (fst (check_connection failing_handler)) = False
   \<and> is_connected (demo_handler\<lparr>is_connected := False\<rparr>) = False
   \<and> probe (demo_handler\<lparr>is_connected := False\<rparr>) = Inr ()
   \<and> is_connected (fst (check_connection (demo_handler\<lparr>is_connected := False\<rparr>))) = False"
proof -
  have a: "probe failing_handler = Inl (Exception ''backend unavailable'')"
    by (simp add: probe_def failing_handler_def failing_client_def)
  have b: "probe (demo_handler\<lparr>is_connected := False\<rparr>) = Inr ()"
    by (simp add: probe_def demo_handler_def demo_client_def)
  have c: "is_connected failing_handler = True"
    by (simp add: failing_handler_def demo_handler_def)
  from a b c check_connection_state [of failing_handler]
    check_connection_state [of "demo_handler\<lparr>is_connected := False\<rparr>"]
  show ?thesis by simp
qed

lemma insert_op_raises: "insert_op h table_name data columns = ([], Inl list_has_no_columns)"
  by (simp add: insert_op_def list_columns_def list_has_no_columns_def)

text \<open>
  Claim C2 says that \<open>insert\<close> chooses its write path by the size of the batch and the
  presence of an id, and that an empty batch returns success. The code does not get
  that far: line 155 has turned the frame into a list before line 157 asks for its
  \<open>columns\<close>. An empty batch, a single row and a batch of three rows all raise
  \<open>AttributeError\<close> with no backend call.
\<close>

theorem insert_op_ignores_batch_shape:
  "insert_op demo_handler ''docs'' [] None = ([], Inl list_has_no_columns)
   \<and> insert_op demo_handler ''docs'' [(''content'', [PStr ''a''])] None = ([], Inl list_has_no_columns)
   \<and> insert_op demo_handler ''docs'' [(''content'', [PStr ''a'', PStr ''b'', PStr ''c''])] None
       = ([], Inl list_has_no_columns)"
  by (simp add: insert_op_raises)

text \<open>
  Claim C3 says that the metadata of each row is deserialized before anything is sent.
  On a row with a metadata field \<open>insert\<close> raises \<open>AttributeError\<close> at the test that
  guards the deserialization (line 157): nothing is deserialized and nothing is sent.
\<close>

theorem insert_op_metadata_not_deserialized:
  "insert_op demo_handler ''docs'' [(''content'', [PStr ''a'']), (''metadata'', [PStr ''{}''])] None
     = ([], Inl list_has_no_columns)"
  by (simp add: insert_op_raises)

text \<open>
  The same on a single row with an id that is among the declared columns: no
  insert-with-id call is issued.
\<close>

lemma insert_op_with_id_raises:
  "insert_op demo_handler ''docs'' [(''id'', [PStr ''r1'']), (''content'', [PStr ''a''])]
     (Some [''id'', ''content'']) = ([], Inl list_has_no_columns)"
  by (simp add: insert_op_raises)

text \<open>
  Claim C7 says that a failure of the backend is turned into an error response by every
  public operation. \<open>select\<close> and \<open>delete\<close> have no \<open>try\<close>: an exception raised by the
  backend's retrieval or delete call leaves them as it is.
\<close>

theorem select_propagates_backend_exception:
  "select failing_handler translate_metadata_condition ''docs'' None None None None
     = ([GetCollection ''docs'', CollectionGet ''docs'' None None None None],
        Inl (Exception ''backend unavailable''))
   \<and> delete failing_handler translate_metadata_condition ''docs'' (Some [id_condition])
     = ([GetCollection ''docs'', CollectionDelete ''docs'' (Some [PStr ''a'']) None],
        Inl (Exception ''backend unavailable''))"
  by code_simp

lemma init_dimension:
  "init XataClient (Some cd) = Inr h \<Longrightarrow> dimension h = dict_get cd ''db_url'' (PInt 8)"
  by (auto simp: init_def connect_def split: sum.splits)

text \<open>
  Claim C8 says that the vector column gets the configured embedding dimension, 8 by
  default. Line 36 reads the setting under the key \<open>db_url\<close>: with a configuration that
  sets the dimension to 16, the schema sent by \<open>create_table\<close> has the database URL as
  its dimension. The three columns and their order are as the claim says.
\<close>

theorem create_table_dimension_is_db_url:
  "(\<exists>h. init (\<lambda>cfg. Inr demo_client) (Some sample_connection_data) = Inr h
        \<and> dimension h = PStr ''https://x''
        \<and> create_table h ''docs''
            = ([TableCreate ''docs'', TableSetSchema ''docs'' (schema_payload (PStr ''https://x''))],
               Inr Response_OK))"
  by (simp add: init_def connect_def sample_connection_data_def dict_get_def create_table_def
        demo_client_def)

subsection \<open>The routing code of insert, taken alone\<close>

text \<open>
  What lines 159 to 208 do on a list of rows, had the call reached them: the path is
  chosen by the number of rows, the presence of an id in the single row and the declared
  columns; the insert with an id is issued with \<open>create_only\<close> set; with declared
  columns every failure of the backend comes back as an error response.
\<close>

lemma insert_rows_empty: "insert_rows h table_name [] columns = ([], Inr Response_OK)"
  by (simp add: insert_rows_def)

lemma insert_rows_bulk:
  assumes "length data > 1" and "client h = Some cl"
  shows "fst (insert_rows h table_name data columns) =
           (case bulk_put_records cl table_name data of
              Inl e \<Rightarrow> [BulkPutRecords table_name data]
            | Inr u \<Rightarrow> [BulkPutRecords table_name data, BulkFlushQueue])"
  using assms by (auto simp: insert_rows_def Let_def split: sum.splits)

lemma insert_rows_with_id:
  assumes "''id'' \<in> set (keys r)" and "ID \<in> set cols" and "client h = Some cl"
  shows "fst (insert_rows h table_name [r] (Some cols)) =
           [RecordsInsertWithId table_name (dict_get r ''id'' PNone) (dict_del r ''id'') True (Some cols)]"
  using assms by (auto simp: insert_rows_def Let_def split: sum.splits option.splits)

text \<open>
  Claim C6. On the path of lines 173 to 192, taken for a single row that has an id while
  \<open>id\<close> is among the declared columns, exactly one backend call is issued: the insert
  with that id, the rest of the row as its payload, and \<open>create_only\<close> set. The backend
  then refuses an id that exists, and the handler does not overwrite: a status that is
  not a success comes back as the error response that names the table and carries the
  backend's message, which is the same response that an exception with that message
  gives. A success gives the success response.
\<close>

theorem insert_with_id_is_create_only:
  assumes "map_of r ''id'' = Some v" and "''id'' \<in> set cols" and "client h = Some cl"
  shows "fst (insert_rows h table_name [r] (Some cols))
           = [RecordsInsertWithId table_name v (filter (\<lambda>kv. fst kv \<noteq> ''id'') r) True (Some cols)]
         \<and> (\<forall>resp. records_insert_with_id cl table_name v (filter (\<lambda>kv. fst kv \<noteq> ''id'') r) True (Some cols)
                     = Inr resp \<and> is_success resp \<longrightarrow>
               snd (insert_rows h table_name [r] (Some cols))
                 = Inr \<lparr>resp_type = OK, data_frame = None, error_message = None\<rparr>)
         \<and> (\<forall>resp m. records_insert_with_id cl table_name v (filter (\<lambda>kv. fst kv \<noteq> ''id'') r) True (Some cols)
                     = Inr resp \<and> \<not> is_success resp \<and> message resp = Some m \<longrightarrow>
               snd (insert_rows h table_name [r] (Some cols))
                 = Inr \<lparr>resp_type = ERROR, data_frame = None,
                        error_message = Some (''Error inserting data into '' @ quote table_name @ '': '' @ m)\<rparr>)
         \<and> (\<forall>m. records_insert_with_id cl table_name v (filter (\<lambda>kv. fst kv \<noteq> ''id'') r) True (Some cols)
                     = Inl (Exception m) \<longrightarrow>
               snd (insert_rows h table_name [r] (Some cols))
                 = Inr \<lparr>resp_type = ERROR, data_frame = None,
                        error_message = Some (''Error inserting data into '' @ quote table_name @ '': '' @ m)\<rparr>)"
proof -
  from assms(1) have k: "''id'' \<in> set (keys r)"
    by (auto simp: keys_def dest: map_of_Some_keys)
  from assms(1) have g: "dict_get r ''id'' PNone = v"
    by (simp add: dict_get_def)
  have d: "dict_del r ''id'' = filter (\<lambda>kv. fst kv \<noteq> ''id'') r"
    by (simp add: dict_del_def)
  from assms(2) have c: "ID \<in> set cols" by (simp add: ID_def)
  show ?thesis
    using k g d c assms(3)
    by (auto simp: insert_rows_def Let_def check_resp_def insert_error_def Response_ERROR_def
          Response_OK_def split: sum.splits option.splits)
qed

theorem insert_with_id_is_create_only_witness:
  "map_of row_with_id ''id'' = Some (PStr ''r1'')
   \<and> ''id'' \<in> set [''id'', ''content'']
   \<and> client occupied_handler = Some occupied_client
   \<and> records_insert_with_id occupied_client ''docs'' (PStr ''r1'') [(''content'', PStr ''a'')] True
        (Some [''id'', ''content'']) = Inr already_exists
   \<and> \<not> is_success already_exists
   \<and> message already_exists = Some ''record with id r1 already exists''
   \<and> insert_rows occupied_handler ''docs'' [row_with_id] (Some [''id'', ''content''])
       = ([RecordsInsertWithId ''docs'' (PStr ''r1'') [(''content'', PStr ''a'')] True
             (Some [''id'', ''content''])],
          Inr \<lparr>resp_type = ERROR, data_frame = None,
                error_message = Some (''Error inserting data into '' @ quote ''docs''
                                       @ '': record with id r1 already exists'')\<rparr>)
   \<and> client failing_handler = Some failing_client
   \<and> records_insert_with_id failing_client ''docs'' (PStr ''r1'') [(''content'', PStr ''a'')] True
        (Some [''id'', ''content'']) = Inl (Exception ''backend unavailable'')
   \<and> insert_rows failing_handler ''docs'' [row_with_id] (Some [''id'', ''content''])
       = ([RecordsInsertWithId ''docs'' (PStr ''r1'') [(''content'', PStr ''a'')] True
             (Some [''id'', ''content''])],
          Inr \<lparr>resp_type = ERROR, data_frame = None,
                error_message = Some (''Error inserting data into '' @ quote ''docs''
                                       @ '': backend unavailable'')\<rparr>)"
proof -
  have a: "map_of row_with_id ''id'' = Some (PStr ''r1'')"
    by (simp add: row_with_id_def)
  have b: "''id'' \<in> set [''id'', ''content'']"
    by simp
  have c: "client occupied_handler = Some occupied_client"
    by (simp add: occupied_handler_def demo_handler_def)
  have d: "filter (\<lambda>kv. fst kv \<noteq> ''id'') row_with_id = [(''content'', PStr ''a'')]"
    by (simp add: row_with_id_def)
  have e: "records_insert_with_id occupied_client ''docs'' (PStr ''r1'') [(''content'', PStr ''a'')] True
        (Some [''id'', ''content'']) = Inr already_exists"
    by (simp add: occupied_client_def demo_client_def)
  have f: "\<not> is_success already_exists
           \<and> message already_exists = Some ''record with id r1 already exists''"
    by (simp add: already_exists_def)
  have g: "client failing_handler = Some failing_client"
    by (simp add: failing_handler_def demo_handler_def)
  have i: "records_insert_with_id failing_client ''docs'' (PStr ''r1'') [(''content'', PStr ''a'')] True
        (Some [''id'', ''content'']) = Inl (Exception ''backend unavailable'')"
    by (simp add: failing_client_def)
  note t1 = insert_with_id_is_create_only [OF a b c, of "''docs''", unfolded d]
  note t2 = insert_with_id_is_create_only [OF a b g, of "''docs''", unfolded d]
  from t1 have f1: "fst (insert_rows occupied_handler ''docs'' [row_with_id] (Some [''id'', ''content'']))
       = [RecordsInsertWithId ''docs'' (PStr ''r1'') [(''content'', PStr ''a'')] True
            (Some [''id'', ''content''])]"
    by (rule conjunct1)
  from t1 [THEN conjunct2, THEN conjunct2, THEN conjunct1, rule_format, OF conjI [OF e f]]
  have s1: "snd (insert_rows occupied_handler ''docs'' [row_with_id] (Some [''id'', ''content'']))
       = Inr \<lparr>resp_type = ERROR, data_frame = None,
               error_message = Some (''Error inserting data into '' @ quote ''docs''
                                      @ '': record with id r1 already exists'')\<rparr>"
    by simp
  from t2 have f2: "fst (insert_rows failing_handler ''docs'' [row_with_id] (Some [''id'', ''content'']))
       = [RecordsInsertWithId ''docs'' (PStr ''r1'') [(''content'', PStr ''a'')] True
            (Some [''id'', ''content''])]"
    by (rule conjunct1)
  from t2 [THEN conjunct2, THEN conjunct2, THEN conjunct2, rule_format, OF i]
  have s2: "snd (insert_rows failing_handler ''docs'' [row_with_id] (Some [''id'', ''content'']))
       = Inr \<lparr>resp_type = ERROR, data_frame = None,
               error_message = Some (''Error inserting data into '' @ quote ''docs''
                                      @ '': backend unavailable'')\<rparr>"
    by simp
  from f1 s1 have r1: "insert_rows occupied_handler ''docs'' [row_with_id] (Some [''id'', ''content''])
       = ([RecordsInsertWithId ''docs'' (PStr ''r1'') [(''content'', PStr ''a'')] True
             (Some [''id'', ''content''])],
          Inr \<lparr>resp_type = ERROR, data_frame = None,
                error_message = Some (''Error inserting data into '' @ quote ''docs''
                                       @ '': record with id r1 already exists'')\<rparr>)"
    by (simp only: prod_eq_iff fst_conv snd_conv)
  from f2 s2 have r2: "insert_rows failing_handler ''docs'' [row_with_id] (Some [''id'', ''content''])
       = ([RecordsInsertWithId ''docs'' (PStr ''r1'') [(''content'', PStr ''a'')] True
             (Some [''id'', ''content''])],
          Inr \<lparr>resp_type = ERROR, data_frame = None,
                error_message = Some (''Error inserting data into '' @ quote ''docs''
                                       @ '': backend unavailable'')\<rparr>)"
    by (simp only: prod_eq_iff fst_conv snd_conv)
  from a b c e f g i r1 r2 show ?thesis by simp
qed

lemma insert_rows_without_id:
  assumes "''id'' \<notin> set (keys r) \<or> (\<exists>cols. columns = Some cols \<and> ID \<notin> set cols)"
    and "client h = Some cl"
  shows "fst (insert_rows h table_name [r] columns) = [RecordsInsert table_name r columns]"
  using assms by (auto simp: insert_rows_def Let_def split: sum.splits option.splits)

lemma insert_rows_id_without_columns:
  assumes "''id'' \<in> set (keys r)"
  shows "\<exists>e. insert_rows h table_name [r] None = ([], Inl (TypeError e))"
  using assms by (simp add: insert_rows_def)

lemma insert_rows_failure_is_error_response:
  "\<exists>r. snd (insert_rows h table_name data (Some cols)) = Inr r"
  by (auto simp: insert_rows_def Let_def split: sum.splits option.splits bool.splits)

subsection \<open>Further facts on select, delete, create_table and the connection\<close>

lemma select_raises_what_retrieval_raises:
  assumes "client h = Some cl" and "get_collection cl table_name = Inr coll"
    and "vector_filter_of conditions = None"
    and "collection_get coll (case conditions of None \<Rightarrow> None | Some cs \<Rightarrow> id_filters_of cs)
           (tr conditions) limit offset = Inl e"
  shows "snd (select h tr table_name columns conditions offset limit) = Inl e"
  using assms by (simp add: select_def select_fetch_def)

lemma delete_raises_what_backend_raises:
  assumes "client h = Some cl" and "get_collection cl table_name = Inr coll"
    and "\<not> (tr (Some cs) = None \<and> id_filters_of cs = None)"
    and "collection_delete coll (id_filters_of cs) (tr (Some cs)) = Inl e"
  shows "snd (delete h tr table_name (Some cs)) = Inl e"
  using assms by (auto simp: delete_def)

lemma create_table_schema:
  assumes "client h = Some cl" and "table_create cl table_name = Inr ()"
  shows "fst (create_table h table_name) =
           [TableCreate table_name, TableSetSchema table_name (schema_payload (dimension h))]"
  using assms by (auto simp: create_table_def Let_def split: sum.splits)

lemma probe_after_disconnect: "is_connected h \<Longrightarrow> \<exists>e. probe (disconnect h) = Inl e"
  by (simp add: probe_def disconnect_def)

end
